theory Spec2Isabelle
  imports Complex_Main "HOL-Library.Word" "HOL-Library.AList"
begin

unbundle bit_operations_syntax

section \<open>Data model of econApp.py\<close>

text \<open>
  The application keeps one JSON-shaped document,
  \<^verbatim>\<open>{"users": {name: {"password": .., "role": .., "logs": [entry, ..]}}}\<close>.
  A log entry and a user are dictionaries with a fixed set of keys, so they are records.
  The \<^verbatim>\<open>users\<close> dictionary is an association list: Python dictionaries keep insertion
  order and the administrator's view iterates over \<^verbatim>\<open>items()\<close>.

  The type of the amounts is the parameter \<open>'a\<close> of the records. The program's amounts
  are Python floats, the type \<open>binary64\<close> below with its rounding addition; a result that
  is meant for exact arithmetic is stated with \<open>'a\<close> the real numbers.
  A \<^typ>\<open>char\<close> stands for one code point below 256 of a Python \<^verbatim>\<open>str\<close>.
  Documents read from the file are taken to have this shape.
\<close>

record 'a transaction =
  t_type :: string
  amount :: 'a
  description :: string
  timestamp :: string

record 'a user =
  password :: string
  role :: string
  logs :: "'a transaction list"

record 'a document =
  users :: "(string \<times> 'a user) list"

section \<open>Python floats\<close>

text \<open>
  A Python float is an IEEE 754 binary64 number: a NaN, an infinity, or a finite value
  \<open>m * 2 ^ e\<close>, written \<open>Finite m e\<close>, with \<open>\<bar>m\<bar> < 2 ^ 53\<close> and \<open>- 1074 \<le> e \<le> 971\<close>. The
  mantissa is kept normalised, \<open>2 ^ 52 \<le> \<bar>m\<bar>\<close> unless \<open>e = - 1074\<close>, and zero is
  \<open>Finite 0 (- 1074)\<close>, so that equal numbers are equal values of the type. The sign of a
  zero is not kept: Python's \<^verbatim>\<open>==\<close> does not see it. For instance \<^verbatim>\<open>0.1\<close> is
  \<open>Finite 7205759403792794 (- 56)\<close>.
\<close>

datatype binary64 = Finite int int | PInf | NInf | NaN

text \<open>The number of low bits by which a magnitude exceeds 53 bits.\<close>

function excess :: "nat \<Rightarrow> nat" where
  "excess m = (if m < 2 ^ 53 then 0 else Suc (excess (m div 2)))"
  by pat_completeness auto
termination
  by (relation "measure id") auto

text \<open>An exact value below 53 bits is shifted up until its mantissa is normalised.\<close>

function lift :: "int \<Rightarrow> int \<Rightarrow> int \<times> int" where
  "lift n e =
     (if n = 0 then (0, - 1074)
      else if \<bar>n\<bar> < 2 ^ 52 \<and> e > - 1074 then lift (2 * n) (e - 1)
      else (n, e))"
  by pat_completeness auto
termination
  by (relation "measure (\<lambda>(n, e). nat (e + 1074))") auto

declare excess.simps [simp del] lift.simps [simp del]

text \<open>
  The binary64 number nearest to \<open>n * 2 ^ e\<close>, ties to the even mantissa, an infinity when
  the rounded value is out of range.
\<close>

definition round_nearest_even :: "int \<Rightarrow> int \<Rightarrow> binary64" where
  "round_nearest_even n e =
     (if \<bar>n\<bar> < 2 ^ 53 then (case lift n e of (m, e') \<Rightarrow> Finite m e')
      else
        let k = excess (nat \<bar>n\<bar>);
            q = n div 2 ^ k;
            r = n mod 2 ^ k;
            q' = (if 2 * r > 2 ^ k \<or> (2 * r = 2 ^ k \<and> odd q) then q + 1 else q);
            m = (if \<bar>q'\<bar> = 2 ^ 53 then q' div 2 else q');
            e' = (if \<bar>q'\<bar> = 2 ^ 53 then e + int k + 1 else e + int k)
        in if e' > 971 then (if m > 0 then PInf else NInf) else Finite m e')"

text \<open>
  Addition, negation, subtraction and comparison of floats. The sum of two finite
  numbers is their exact sum, rounded; adding zero changes nothing.
\<close>

instantiation binary64 :: "{zero, plus, uminus, minus, ord}"
begin

definition zero_binary64 :: binary64 where
  "zero_binary64 = Finite 0 (- 1074)"

fun plus_binary64 :: "binary64 \<Rightarrow> binary64 \<Rightarrow> binary64" where
  "plus_binary64 NaN y = NaN"
| "plus_binary64 x NaN = NaN"
| "plus_binary64 PInf NInf = NaN"
| "plus_binary64 NInf PInf = NaN"
| "plus_binary64 PInf y = PInf"
| "plus_binary64 x PInf = PInf"
| "plus_binary64 NInf y = NInf"
| "plus_binary64 x NInf = NInf"
| "plus_binary64 (Finite m1 e1) (Finite m2 e2) =
     (if m1 = 0 then Finite m2 e2
      else if m2 = 0 then Finite m1 e1
      else let e0 = min e1 e2
           in round_nearest_even (m1 * 2 ^ nat (e1 - e0) + m2 * 2 ^ nat (e2 - e0)) e0)"

fun uminus_binary64 :: "binary64 \<Rightarrow> binary64" where
  "uminus_binary64 (Finite m e) = Finite (- m) e"
| "uminus_binary64 PInf = NInf"
| "uminus_binary64 NInf = PInf"
| "uminus_binary64 NaN = NaN"

definition minus_binary64 :: "binary64 \<Rightarrow> binary64 \<Rightarrow> binary64" where
  "minus_binary64 x y = x + (- y)"

fun less_binary64 :: "binary64 \<Rightarrow> binary64 \<Rightarrow> bool" where
  "less_binary64 NaN y = False"
| "less_binary64 x NaN = False"
| "less_binary64 x NInf = False"
| "less_binary64 PInf y = False"
| "less_binary64 NInf y = True"
| "less_binary64 x PInf = True"
| "less_binary64 (Finite m1 e1) (Finite m2 e2) =
     (let e0 = min e1 e2 in m1 * 2 ^ nat (e1 - e0) < m2 * 2 ^ nat (e2 - e0))"

definition less_eq_binary64 :: "binary64 \<Rightarrow> binary64 \<Rightarrow> bool" where
  "less_eq_binary64 x y = (x < y \<or> (x = y \<and> x \<noteq> NaN))"

instance ..

end


section \<open>Ledger: calculate_summary\<close>

text \<open>
  Python's built-in \<^verbatim>\<open>sum\<close>: a left fold that starts from 0. For floats this is the
  loop of CPython up to version 3.11; later versions carry a compensation term along,
  which changes nothing when the additions are exact.
\<close>

definition py_sum :: "'a::{zero,plus} list \<Rightarrow> 'a" where
  "py_sum xs = foldl (+) 0 xs"

text \<open>
  \<^verbatim>\<open>
  def calculate_summary(user_logs):
      earned = sum(log["amount"] for log in user_logs if log["type"] == "Earned")
      spent = sum(log["amount"] for log in user_logs if log["type"] == "Spent")
      given = sum(log["amount"] for log in user_logs if log["type"] == "Given")
      received = sum(log["amount"] for log in user_logs if log["type"] == "Received")
      balance = earned + received - spent - given
      return earned, spent, given, received, balance
  \<close>
\<close>

definition calculate_summary ::
  "'a::{zero,plus,minus} transaction list \<Rightarrow> 'a \<times> 'a \<times> 'a \<times> 'a \<times> 'a" where
  "calculate_summary user_logs =
     (let earned = py_sum (map amount (filter (\<lambda>log. t_type log = ''Earned'') user_logs));
          spent = py_sum (map amount (filter (\<lambda>log. t_type log = ''Spent'') user_logs));
          given = py_sum (map amount (filter (\<lambda>log. t_type log = ''Given'') user_logs));
          received = py_sum (map amount (filter (\<lambda>log. t_type log = ''Received'') user_logs));
          balance = earned + received - spent - given
      in (earned, spent, given, received, balance))"

text \<open>The four kinds of transaction that the summary recognises.\<close>

definition kinds :: "string set" where
  "kinds = {''Earned'', ''Spent'', ''Given'', ''Received''}"

text \<open>What one entry adds to the bucket of kind \<open>k\<close>.\<close>

definition contribution :: "string \<Rightarrow> 'a::zero transaction \<Rightarrow> 'a" where
  "contribution k entry = (if t_type entry = k then amount entry else 0)"

section \<open>Store: load_data, save_data and the session state\<close>

text \<open>
  \<^verbatim>\<open>hashlib.sha256(s.encode()).digest()\<close> belongs to Python's library, not to the
  application. It is a parameter \<open>H\<close> of the model, a function from strings to 256-bit
  digests; \<^verbatim>\<open>hexdigest()\<close> prints the digest as 64 lower-case hexadecimal digits.
\<close>

type_synonym sha = "string \<Rightarrow> 256 word"

definition hexdigest :: "256 word \<Rightarrow> string" where
  "hexdigest w =
     map (\<lambda>i. ''0123456789abcdef'' ! unat (drop_bit (4 * i) w AND 15)) (rev [0..<64])"

text \<open>
  \<^verbatim>\<open>
  def hash_password(password):
      return hashlib.sha256(password.encode()).hexdigest()
  \<close>
\<close>

definition hash_password :: "sha \<Rightarrow> string \<Rightarrow> string" where
  "hash_password H pw = hexdigest (H pw)"

text \<open>
  The data file is absent, unreadable as JSON, or holds a document. The JSON text itself
  (\<^verbatim>\<open>json.dump\<close> and \<^verbatim>\<open>json.load\<close>) is not modelled: a stored file holds the
  document that was written.
\<close>

datatype 'a stored_file = Missing | Corrupt | Stored "'a document"

datatype py_error = KeyError | JSONDecodeError | ValueError

text \<open>
  \<^verbatim>\<open>
  def load_data():
      try:
          with open(DATA_FILE, "r") as f:
              return json.load(f)
      except FileNotFoundError:
          return {"users": {"admin": {"password": hashlib.sha256("admin123".encode()).hexdigest(),
                                      "role": "admin",
                                      "logs": []}}}
  \<close>
  Only the missing file is caught; a file that does not parse raises.
\<close>

definition load_data :: "sha \<Rightarrow> 'a stored_file \<Rightarrow> py_error + 'a document" where
  "load_data H f =
     (case f of
        Stored d \<Rightarrow> Inr d
      | Corrupt \<Rightarrow> Inl JSONDecodeError
      | Missing \<Rightarrow>
          Inr \<lparr>users = [(''admin'', \<lparr>password = hexdigest (H ''admin123''),
                                    role = ''admin'',
                                    logs = []\<rparr>)]\<rparr>)"

text \<open>
  The state of a run: the three keys of \<^verbatim>\<open>st.session_state\<close> and the data file.
\<close>

record 'a app =
  data :: "'a document"
  logged_in_user :: "string option"
  page :: "string option"
  data_file :: "'a stored_file"

text \<open>
  \<^verbatim>\<open>
  def save_data():
      os.makedirs(os.path.dirname(DATA_FILE) or ".", exist_ok=True)
      with open(DATA_FILE, "w") as f:
          json.dump(st.session_state['data'], f, indent=4)
  \<close>
\<close>

definition save_data :: "'a app \<Rightarrow> 'a app" where
  "save_data s = s\<lparr>data_file := Stored (data s)\<rparr>"

text \<open>
  The start of a session, when no key of the session state is set yet:
  \<^verbatim>\<open>
  if 'data' not in st.session_state:
      st.session_state['data'] = load_data()
  if 'logged_in_user' not in st.session_state:
      st.session_state['logged_in_user'] = None
  if 'page' not in st.session_state:
      st.session_state['page'] = None
  \<close>
\<close>

definition session_init :: "sha \<Rightarrow> 'a stored_file \<Rightarrow> py_error + 'a app" where
  "session_init H f =
     (case load_data H f of
        Inl e \<Rightarrow> Inl e
      | Inr d \<Rightarrow> Inr \<lparr>data = d, logged_in_user = None, page = None, data_file = f\<rparr>)"

section \<open>Ledger: log_transaction and the transaction page\<close>

text \<open>
  \<^verbatim>\<open>
  def log_transaction(user, t_type, amount, description):
      entry = {
          "type": t_type,
          "amount": float(amount),
          "description": description,
          "timestamp": datetime.now().strftime("%Y-%m-%d %H:%M:%S")
      }
      st.session_state['data']['users'][user]["logs"].append(entry)
      save_data()
  \<close>
  The formatted clock reading is the argument \<open>now\<close>. Subscripting the dictionary with an
  unknown user raises \<^verbatim>\<open>KeyError\<close>.
\<close>

definition log_transaction ::
  "string \<Rightarrow> string \<Rightarrow> 'a \<Rightarrow> string \<Rightarrow> string \<Rightarrow> 'a app \<Rightarrow> py_error + 'a app" where
  "log_transaction usr ty amt descr now s =
     (let entry = \<lparr>t_type = ty, amount = amt, description = descr, timestamp = now\<rparr>
      in case map_of (users (data s)) usr of
           None \<Rightarrow> Inl KeyError
         | Some u \<Rightarrow>
             Inr (save_data
               (s\<lparr>data := (data s)\<lparr>users :=
                    AList.update usr (u\<lparr>logs := logs u @ [entry]\<rparr>) (users (data s))\<rparr>\<rparr>)))"

text \<open>What \<^verbatim>\<open>st.success\<close> and \<^verbatim>\<open>st.error\<close> show.\<close>

datatype feedback = St_success string | St_error string

text \<open>
  A run of the transaction page in which ``Submit Transaction'' is pressed:
  \<^verbatim>\<open>
  if st.button("Submit Transaction", key="submit_txn"):
      if amount > 0:
          log_transaction(username, t_type, amount, description)
          st.success("Transaction added!")
          st.session_state['page'] = 'dashboard'
      else:
          st.error("Amount must be greater than 0.")
  \<close>
\<close>

definition make_transaction_page ::
  "string \<Rightarrow> string \<Rightarrow> 'a::{zero,ord} \<Rightarrow> string \<Rightarrow> string \<Rightarrow> 'a app
     \<Rightarrow> py_error + feedback \<times> 'a app" where
  "make_transaction_page username ty amt descr now s =
     (if amt > 0 then
        (case log_transaction username ty amt descr now s of
           Inl e \<Rightarrow> Inl e
         | Inr s' \<Rightarrow> Inr (St_success ''Transaction added!'', s'\<lparr>page := Some ''dashboard''\<rparr>))
      else Inr (St_error ''Amount must be greater than 0.'', s))"


section \<open>Auth: the login page\<close>

text \<open>
  \<^verbatim>\<open>str.isspace\<close> on the code points below 256, and \<^verbatim>\<open>str.strip()\<close>, which drops
  such characters from both ends.
\<close>

definition isspace :: "char \<Rightarrow> bool" where
  "isspace c = ((of_char c :: nat) \<in> {9, 10, 11, 12, 13, 28, 29, 30, 31, 32, 133, 160})"

definition strip :: "string \<Rightarrow> string" where
  "strip s = rev (dropWhile isspace (rev (dropWhile isspace s)))"

datatype choice = Login | Sign_Up

text \<open>
  A run of the login page in which the button of the chosen option is pressed:
  \<^verbatim>\<open>
  if choice == "Login":
      if st.button("Login", key="login_button"):
          if username in st.session_state['data']['users'] and \
             st.session_state['data']['users'][username]['password'] == hash_password(password):
              st.session_state['logged_in_user'] = username
              st.session_state['page'] = 'dashboard'
              st.success(f"Welcome back, {username}!")
              st.rerun()
          else:
              st.error("Invalid username or password")
  else:  # Sign Up
      if st.button("Sign Up", key="signup_button"):
          if username.strip() == "" or password.strip() == "":
              st.error("Username and password cannot be empty")
          elif username in st.session_state['data']['users']:
              st.error("Username already exists")
          else:
              st.session_state['data']['users'][username] = {"password": hash_password(password),
                                                              "role": "user",
                                                              "logs": []}
              save_data()
              st.session_state['logged_in_user'] = username
              st.session_state['page'] = 'dashboard'
              st.success("Account created! Logging you in...")
  \<close>
\<close>

fun login_page ::
  "sha \<Rightarrow> choice \<Rightarrow> string \<Rightarrow> string \<Rightarrow> 'a app \<Rightarrow> feedback \<times> 'a app" where
  "login_page H Login username pw s =
     (case map_of (users (data s)) username of
        Some u \<Rightarrow>
          if password u = hash_password H pw
          then (St_success (''Welcome back, '' @ username @ ''!''),
                s\<lparr>logged_in_user := Some username, page := Some ''dashboard''\<rparr>)
          else (St_error ''Invalid username or password'', s)
      | None \<Rightarrow> (St_error ''Invalid username or password'', s))"
| "login_page H Sign_Up username pw s =
     (if strip username = '''' \<or> strip pw = ''''
      then (St_error ''Username and password cannot be empty'', s)
      else if map_of (users (data s)) username \<noteq> None
      then (St_error ''Username already exists'', s)
      else
        (St_success ''Account created! Logging you in...'',
         (save_data
           (s\<lparr>data := (data s)\<lparr>users :=
                AList.update username
                  \<lparr>password = hash_password H pw, role = ''user'', logs = []\<rparr>
                  (users (data s))\<rparr>\<rparr>))
         \<lparr>logged_in_user := Some username, page := Some ''dashboard''\<rparr>))"

definition is_success :: "feedback \<Rightarrow> bool" where
  "is_success fb = (case fb of St_success _ \<Rightarrow> True | St_error _ \<Rightarrow> False)"

section \<open>Aggregator: the administrator's dashboard\<close>








section \<open>Properties of the summary\<close>

lemma py_sum_sum_list: "py_sum xs = sum_list (xs :: real list)"
proof -
  have "foldl (+) a xs = a + sum_list xs" for a :: real
    by (induction xs arbitrary: a) simp_all
  then show ?thesis by (simp add: py_sum_def)
qed

lemma bucket_contribution:
  "py_sum (map amount (filter (\<lambda>log. t_type log = k) ls))
     = (\<Sum>e\<leftarrow>ls. contribution k (e :: real transaction))"
  by (induction ls) (simp_all add: py_sum_sum_list contribution_def)

lemma calculate_summary_buckets:
  "calculate_summary (ls :: real transaction list) =
     ((\<Sum>e\<leftarrow>ls. contribution ''Earned'' e),
      (\<Sum>e\<leftarrow>ls. contribution ''Spent'' e),
      (\<Sum>e\<leftarrow>ls. contribution ''Given'' e),
      (\<Sum>e\<leftarrow>ls. contribution ''Received'' e),
      (\<Sum>e\<leftarrow>ls. contribution ''Earned'' e) + (\<Sum>e\<leftarrow>ls. contribution ''Received'' e)
        - (\<Sum>e\<leftarrow>ls. contribution ''Spent'' e) - (\<Sum>e\<leftarrow>ls. contribution ''Given'' e))"
  by (simp add: calculate_summary_def Let_def bucket_contribution)

lemma contribution_other_kind:
  "t_type e \<notin> kinds \<Longrightarrow> k \<in> kinds \<Longrightarrow> contribution k e = 0"
  by (auto simp: contribution_def)

text \<open>
  Claim C1. For every list of logs, \<open>calculate_summary\<close> returns
  (earned, spent, given, received, balance): each of the first four is the sum of the
  amounts of the entries of that type, the balance is earned + received - spent - given,
  and an entry whose type is none of the four kinds adds 0 to every component, wherever
  it stands in the list. The function only reads its argument: it returns the tuple and
  nothing else.
\<close>

theorem calculate_summary_spec:
  "calculate_summary (ls :: real transaction list) =
     ((\<Sum>e\<leftarrow>ls. if t_type e = ''Earned'' then amount e else 0),
      (\<Sum>e\<leftarrow>ls. if t_type e = ''Spent'' then amount e else 0),
      (\<Sum>e\<leftarrow>ls. if t_type e = ''Given'' then amount e else 0),
      (\<Sum>e\<leftarrow>ls. if t_type e = ''Received'' then amount e else 0),
      (\<Sum>e\<leftarrow>ls. if t_type e = ''Earned'' then amount e else 0)
        + (\<Sum>e\<leftarrow>ls. if t_type e = ''Received'' then amount e else 0)
        - (\<Sum>e\<leftarrow>ls. if t_type e = ''Spent'' then amount e else 0)
        - (\<Sum>e\<leftarrow>ls. if t_type e = ''Given'' then amount e else 0))
   \<and> (t_type x \<notin> kinds \<longrightarrow>
        calculate_summary (before @ (x :: real transaction) # after)
          = calculate_summary (before @ after))"
proof
  show "calculate_summary (ls :: real transaction list) =
     ((\<Sum>e\<leftarrow>ls. if t_type e = ''Earned'' then amount e else 0),
      (\<Sum>e\<leftarrow>ls. if t_type e = ''Spent'' then amount e else 0),
      (\<Sum>e\<leftarrow>ls. if t_type e = ''Given'' then amount e else 0),
      (\<Sum>e\<leftarrow>ls. if t_type e = ''Received'' then amount e else 0),
      (\<Sum>e\<leftarrow>ls. if t_type e = ''Earned'' then amount e else 0)
        + (\<Sum>e\<leftarrow>ls. if t_type e = ''Received'' then amount e else 0)
        - (\<Sum>e\<leftarrow>ls. if t_type e = ''Spent'' then amount e else 0)
        - (\<Sum>e\<leftarrow>ls. if t_type e = ''Given'' then amount e else 0))"
    using calculate_summary_buckets [of ls] by (simp add: contribution_def)
next
  show "t_type x \<notin> kinds \<longrightarrow>
        calculate_summary (before @ (x :: real transaction) # after)
          = calculate_summary (before @ after)"
  proof
    assume other: "t_type x \<notin> kinds"
    have "contribution k x = 0" if "k \<in> kinds" for k
      using other that by (rule contribution_other_kind)
    then have zero: "contribution ''Earned'' x = 0" "contribution ''Spent'' x = 0"
      "contribution ''Given'' x = 0" "contribution ''Received'' x = 0"
      by (simp_all add: kinds_def)
    show "calculate_summary (before @ (x :: real transaction) # after)
          = calculate_summary (before @ after)"
      by (simp add: calculate_summary_buckets zero)
  qed
qed

theorem calculate_summary_spec_witness:
  "calculate_summary
     [\<lparr>t_type = ''Earned'', amount = (100::real), description = ''job'', timestamp = ''t1''\<rparr>,
      \<lparr>t_type = ''Bonus'', amount = (7::real), description = ''x'', timestamp = ''t2''\<rparr>,
      \<lparr>t_type = ''Spent'', amount = (30::real), description = ''food'', timestamp = ''t3''\<rparr>]
   = (100, 30, 0, 0, 70)
   \<and> calculate_summary
     [\<lparr>t_type = ''Earned'', amount = (100::real), description = ''job'', timestamp = ''t1''\<rparr>,
      \<lparr>t_type = ''Spent'', amount = (30::real), description = ''food'', timestamp = ''t3''\<rparr>]
   = (100, 30, 0, 0, 70)"
proof -
  let ?a = "\<lparr>t_type = ''Earned'', amount = (100::real), description = ''job'', timestamp = ''t1''\<rparr>"
  let ?x = "\<lparr>t_type = ''Bonus'', amount = (7::real), description = ''x'', timestamp = ''t2''\<rparr>"
  let ?b = "\<lparr>t_type = ''Spent'', amount = (30::real), description = ''food'', timestamp = ''t3''\<rparr>"
  have other: "t_type ?x \<notin> kinds" by (simp add: kinds_def)
  have full: "calculate_summary [?a, ?x, ?b] = (100, 30, 0, 0, 70)"
    using calculate_summary_spec [of "[?a, ?x, ?b]" ?x "[]" "[]", THEN conjunct1] by simp
  have "calculate_summary ([?a] @ ?x # [?b]) = calculate_summary ([?a] @ [?b])"
    using calculate_summary_spec [of "[]" ?x "[?a]" "[?b]", THEN conjunct2] other by blast
  with full show ?thesis by simp
qed

section \<open>Properties of the ledger\<close>

lemma keys_update_present:
  "map_of al k = Some v \<Longrightarrow> map fst (AList.update k v' al) = map fst al"
  by (induction al) (auto split: if_splits)

lemma log_transaction_present:
  assumes "map_of (users (data s)) usr = Some u"
  shows "log_transaction usr ty amt descr now s =
    Inr (save_data (s\<lparr>data := (data s)\<lparr>users := AList.update usr
      (u\<lparr>logs := logs u @ [\<lparr>t_type = ty, amount = amt, description = descr, timestamp = now\<rparr>]\<rparr>)
      (users (data s))\<rparr>\<rparr>))"
  using assms by (simp add: log_transaction_def)

text \<open>
  Claim C10. For a user present in the store and any type, amount and description,
  \<open>log_transaction\<close> returns normally; afterwards the user's log sequence is the old one
  followed by exactly the new entry, the user's password hash and role are unchanged,
  the record of every other user is unchanged, and the users keep their order.
\<close>

theorem log_transaction_frame:
  assumes "map_of (users (data s)) usr = Some u"
  shows "\<exists>s' u'. log_transaction usr ty amt descr now s = Inr s'
      \<and> map_of (users (data s')) usr = Some u'
      \<and> logs u' = logs u @ [\<lparr>t_type = ty, amount = amt, description = descr, timestamp = now\<rparr>]
      \<and> password u' = password u \<and> role u' = role u
      \<and> (\<forall>other. other \<noteq> usr \<longrightarrow>
            map_of (users (data s')) other = map_of (users (data s)) other)
      \<and> map fst (users (data s')) = map fst (users (data s))"
proof -
  let ?e = "\<lparr>t_type = ty, amount = amt, description = descr, timestamp = now\<rparr>"
  let ?u' = "u\<lparr>logs := logs u @ [?e]\<rparr>"
  let ?s' = "save_data (s\<lparr>data := (data s)\<lparr>users := AList.update usr ?u' (users (data s))\<rparr>\<rparr>)"
  have run: "log_transaction usr ty amt descr now s = Inr ?s'"
    using assms by (rule log_transaction_present)
  have us: "users (data ?s') = AList.update usr ?u' (users (data s))"
    by (simp add: save_data_def)
  have look: "map_of (users (data ?s')) usr = Some ?u'"
    by (simp add: us update_conv')
  have others: "\<forall>other. other \<noteq> usr \<longrightarrow>
      map_of (users (data ?s')) other = map_of (users (data s)) other"
    by (simp add: us update_conv')
  have keys: "map fst (users (data ?s')) = map fst (users (data s))"
    using assms by (simp add: us keys_update_present)
  from run look others keys show ?thesis by simp
qed

theorem log_transaction_frame_witness:
  "\<exists>s' u'. log_transaction ''bob'' ''Spent'' (30::real) ''food'' ''2024-01-01 10:00:00''
        \<lparr>data = \<lparr>users = [(''alice'', \<lparr>password = ''a1'', role = ''user'', logs = ([] :: real transaction list)\<rparr>),
                          (''bob'', \<lparr>password = ''b2'', role = ''user'', logs = ([] :: real transaction list)\<rparr>)]\<rparr>,
         logged_in_user = Some ''bob'', page = Some ''make_transaction'', data_file = Missing\<rparr>
        = Inr s'
      \<and> map_of (users (data s')) ''bob'' = Some u'
      \<and> logs u' = [\<lparr>t_type = ''Spent'', amount = (30::real), description = ''food'',
                    timestamp = ''2024-01-01 10:00:00''\<rparr>]
      \<and> password u' = ''b2'' \<and> role u' = ''user''
      \<and> map_of (users (data s')) ''alice''
          = Some \<lparr>password = ''a1'', role = ''user'', logs = ([] :: real transaction list)\<rparr>
      \<and> map fst (users (data s')) = [''alice'', ''bob'']"
  using log_transaction_frame [of
      "\<lparr>data = \<lparr>users = [(''alice'', \<lparr>password = ''a1'', role = ''user'', logs = ([] :: real transaction list)\<rparr>),
                          (''bob'', \<lparr>password = ''b2'', role = ''user'', logs = ([] :: real transaction list)\<rparr>)]\<rparr>,
         logged_in_user = Some ''bob'', page = Some ''make_transaction'', data_file = Missing\<rparr>"
      "''bob''" "\<lparr>password = ''b2'', role = ''user'', logs = ([] :: real transaction list)\<rparr>"
      "''Spent''" "30::real" "''food''" "''2024-01-01 10:00:00''"]
  by fastforce











text \<open>
  Claim C3. For every user name, type and description and every amount that is 0 or
  less, submitting the transaction is rejected with an error message and the whole
  state, the user's log sequence and the rest of the store with it, is as before.
\<close>

theorem nonpositive_amount_rejected:
  "(amt :: real) \<le> 0 \<Longrightarrow>
   make_transaction_page usr ty amt descr now s
     = Inr (St_error ''Amount must be greater than 0.'', s)"
  by (simp add: make_transaction_page_def)

theorem nonpositive_amount_rejected_witness:
  "(0::real) \<le> 0 \<and>
   make_transaction_page ''admin'' ''Earned'' (0::real) ''nothing'' ''2024-01-01 10:00:00''
     \<lparr>data = \<lparr>users = [(''admin'', \<lparr>password = ''p'', role = ''admin'', logs = ([] :: real transaction list)\<rparr>)]\<rparr>,
      logged_in_user = Some ''admin'', page = Some ''make_transaction'', data_file = Missing\<rparr>
   = Inr (St_error ''Amount must be greater than 0.'',
     \<lparr>data = \<lparr>users = [(''admin'', \<lparr>password = ''p'', role = ''admin'', logs = ([] :: real transaction list)\<rparr>)]\<rparr>,
      logged_in_user = Some ''admin'', page = Some ''make_transaction'', data_file = Missing\<rparr>)"
  using nonpositive_amount_rejected [of 0 "''admin''" "''Earned''" "''nothing''"
      "''2024-01-01 10:00:00''"
      "\<lparr>data = \<lparr>users = [(''admin'', \<lparr>password = ''p'', role = ''admin'', logs = ([] :: real transaction list)\<rparr>)]\<rparr>,
      logged_in_user = Some ''admin'', page = Some ''make_transaction'', data_file = Missing\<rparr>"]
  by simp

section \<open>Properties of the login page\<close>

lemma dropWhile_all: "(\<forall>x\<in>set (dropWhile P s). P x) = (\<forall>x\<in>set s. P x)"
proof
  assume rest: "\<forall>x\<in>set (dropWhile P s). P x"
  have "dropWhile P s = []"
  proof (rule ccontr)
    assume "dropWhile P s \<noteq> []"
    then have "\<not> P (hd (dropWhile P s))" "hd (dropWhile P s) \<in> set (dropWhile P s)"
      by (simp_all add: hd_dropWhile)
    with rest show False by blast
  qed
  then show "\<forall>x\<in>set s. P x" by (simp add: dropWhile_eq_Nil_conv)
next
  assume "\<forall>x\<in>set s. P x"
  then show "\<forall>x\<in>set (dropWhile P s). P x" by (meson set_dropWhileD)
qed

lemma strip_empty_iff: "(strip s = '''') = (\<forall>c\<in>set s. isspace c)"
  by (simp add: strip_def dropWhile_eq_Nil_conv dropWhile_all)

lemma update_absent: "map_of al k = None \<Longrightarrow> AList.update k v al = al @ [(k, v)]"
  by (induction al) (auto split: if_splits)









text \<open>
  Claim C5, as the code has it. Signing up fails exactly when the user name is empty or
  all whitespace, the password is empty or all whitespace, or the user name is already
  a key of the users dictionary (compared as it is typed). When it succeeds, the new
  user is added after the others with the hash of the password, role "user" and no
  logs, the document is written to the data file at once, and the session is logged in.
\<close>

theorem signup_spec:
  "(\<not> is_success (fst (login_page H Sign_Up username pw s)))
     = ((\<forall>c\<in>set username. isspace c) \<or> (\<forall>c\<in>set pw. isspace c)
        \<or> username \<in> fst ` set (users (data s)))
   \<and> (is_success (fst (login_page H Sign_Up username pw s)) \<longrightarrow>
        login_page H Sign_Up username pw s =
          (St_success ''Account created! Logging you in...'',
           \<lparr>data = \<lparr>users = users (data s) @
                [(username, \<lparr>password = hash_password H pw, role = ''user'', logs = []\<rparr>)]\<rparr>,
            logged_in_user = Some username, page = Some ''dashboard'',
            data_file = Stored \<lparr>users = users (data s) @
                [(username, \<lparr>password = hash_password H pw, role = ''user'', logs = []\<rparr>)]\<rparr>\<rparr>))"
proof
  show "(\<not> is_success (fst (login_page H Sign_Up username pw s)))
     = ((\<forall>c\<in>set username. isspace c) \<or> (\<forall>c\<in>set pw. isspace c)
        \<or> username \<in> fst ` set (users (data s)))"
    by (simp add: is_success_def strip_empty_iff map_of_eq_None_iff)
next
  show "is_success (fst (login_page H Sign_Up username pw s)) \<longrightarrow>
        login_page H Sign_Up username pw s =
          (St_success ''Account created! Logging you in...'',
           \<lparr>data = \<lparr>users = users (data s) @
                [(username, \<lparr>password = hash_password H pw, role = ''user'', logs = []\<rparr>)]\<rparr>,
            logged_in_user = Some username, page = Some ''dashboard'',
            data_file = Stored \<lparr>users = users (data s) @
                [(username, \<lparr>password = hash_password H pw, role = ''user'', logs = []\<rparr>)]\<rparr>\<rparr>)"
  proof
    assume ok: "is_success (fst (login_page H Sign_Up username pw s))"
    then have fresh: "map_of (users (data s)) username = None"
      and full: "strip username \<noteq> ''''" "strip pw \<noteq> ''''"
      by (auto simp: is_success_def split: if_splits)
    show "login_page H Sign_Up username pw s =
          (St_success ''Account created! Logging you in...'',
           \<lparr>data = \<lparr>users = users (data s) @
                [(username, \<lparr>password = hash_password H pw, role = ''user'', logs = []\<rparr>)]\<rparr>,
            logged_in_user = Some username, page = Some ''dashboard'',
            data_file = Stored \<lparr>users = users (data s) @
                [(username, \<lparr>password = hash_password H pw, role = ''user'', logs = []\<rparr>)]\<rparr>\<rparr>)"
      using fresh full by (simp add: save_data_def update_absent)
  qed
qed

theorem signup_spec_witness:
  "login_page (\<lambda>p. 0) Sign_Up ''alice'' ''pw1''
      \<lparr>data = \<lparr>users = [(''admin'', \<lparr>password = hexdigest 0, role = ''admin'', logs = ([] :: real transaction list)\<rparr>)]\<rparr>,
       logged_in_user = None, page = None, data_file = Missing\<rparr>
   = (St_success ''Account created! Logging you in...'',
      \<lparr>data = \<lparr>users = [(''admin'', \<lparr>password = hexdigest 0, role = ''admin'', logs = ([] :: real transaction list)\<rparr>),
                        (''alice'', \<lparr>password = hexdigest 0, role = ''user'', logs = ([] :: real transaction list)\<rparr>)]\<rparr>,
       logged_in_user = Some ''alice'', page = Some ''dashboard'',
       data_file = Stored
         \<lparr>users = [(''admin'', \<lparr>password = hexdigest 0, role = ''admin'', logs = ([] :: real transaction list)\<rparr>),
                   (''alice'', \<lparr>password = hexdigest 0, role = ''user'', logs = ([] :: real transaction list)\<rparr>)]\<rparr>\<rparr>)"
proof -
  let ?H = "(\<lambda>p. 0) :: sha"
  let ?s = "\<lparr>data = \<lparr>users = [(''admin'', \<lparr>password = hexdigest 0, role = ''admin'', logs = ([] :: real transaction list)\<rparr>)]\<rparr>,
       logged_in_user = None, page = None, data_file = Missing\<rparr>"
  have name: "\<not> (\<forall>c\<in>set ''alice''. isspace c)" by (simp add: isspace_def)
  have pw: "\<not> (\<forall>c\<in>set ''pw1''. isspace c)" by (simp add: isspace_def)
  have fresh: "''alice'' \<notin> fst ` set (users (data ?s))" by simp
  have "is_success (fst (login_page ?H Sign_Up ''alice'' ''pw1'' ?s))"
    using signup_spec [of ?H "''alice''" "''pw1''" ?s, THEN conjunct1] name pw fresh
    by blast
  then show ?thesis
    using signup_spec [of ?H "''alice''" "''pw1''" ?s, THEN conjunct2]
    by (simp add: hash_password_def)
qed

text \<open>
  Claim C5, as it is written, lets sign-up fail only for an empty name, an empty
  password or a name in use. A name of two spaces is not empty and not in use, the
  password is not empty, and still the sign-up is refused and nothing changes.
\<close>

theorem signup_blank_name_counterexample:
  "''  '' \<noteq> '''' \<and> ''pw'' \<noteq> ''''
   \<and> ''  '' \<notin> fst ` set (users (data
        \<lparr>data = \<lparr>users = [(''admin'', \<lparr>password = hexdigest 0, role = ''admin'', logs = ([] :: real transaction list)\<rparr>)]\<rparr>,
         logged_in_user = None, page = None, data_file = Missing\<rparr>))
   \<and> login_page (\<lambda>p. 0) Sign_Up ''  '' ''pw''
        \<lparr>data = \<lparr>users = [(''admin'', \<lparr>password = hexdigest 0, role = ''admin'', logs = ([] :: real transaction list)\<rparr>)]\<rparr>,
         logged_in_user = None, page = None, data_file = Missing\<rparr>
      = (St_error ''Username and password cannot be empty'',
        \<lparr>data = \<lparr>users = [(''admin'', \<lparr>password = hexdigest 0, role = ''admin'', logs = ([] :: real transaction list)\<rparr>)]\<rparr>,
         logged_in_user = None, page = None, data_file = Missing\<rparr>)"
  by (simp add: strip_def isspace_def)

text \<open>
  Claim C6. When the user name is already a key of the users dictionary, signing up
  with it fails and the state is returned as it was: the account keeps its password
  hash, its role and its logs.
\<close>

theorem signup_existing_user_unchanged:
  assumes "map_of (users (data s)) username = Some u"
  shows "\<not> is_success (fst (login_page H Sign_Up username pw s))
      \<and> snd (login_page H Sign_Up username pw s) = s
      \<and> map_of (users (data (snd (login_page H Sign_Up username pw s)))) username = Some u"
  using assms by (simp add: is_success_def)

theorem signup_existing_user_unchanged_witness:
  "\<not> is_success (fst (login_page (\<lambda>p. 0) Sign_Up ''admin'' ''other''
        \<lparr>data = \<lparr>users = [(''admin'', \<lparr>password = hexdigest 7, role = ''admin'', logs = ([] :: real transaction list)\<rparr>)]\<rparr>,
         logged_in_user = None, page = None, data_file = Missing\<rparr>))
   \<and> snd (login_page (\<lambda>p. 0) Sign_Up ''admin'' ''other''
        \<lparr>data = \<lparr>users = [(''admin'', \<lparr>password = hexdigest 7, role = ''admin'', logs = ([] :: real transaction list)\<rparr>)]\<rparr>,
         logged_in_user = None, page = None, data_file = Missing\<rparr>)
      = \<lparr>data = \<lparr>users = [(''admin'', \<lparr>password = hexdigest 7, role = ''admin'', logs = ([] :: real transaction list)\<rparr>)]\<rparr>,
         logged_in_user = None, page = None, data_file = Missing\<rparr>"
proof -
  let ?u = "\<lparr>password = hexdigest 7, role = ''admin'', logs = ([] :: real transaction list)\<rparr>"
  let ?s = "\<lparr>data = \<lparr>users = [(''admin'', ?u)]\<rparr>,
         logged_in_user = None, page = None, data_file = Missing\<rparr>"
  have present: "map_of (users (data ?s)) ''admin'' = Some ?u" by simp
  show ?thesis
    using signup_existing_user_unchanged [OF present, of "\<lambda>p. 0" "''other''"] by blast
qed

text \<open>
  Claim C7. When the data file does not exist, \<open>load_data\<close> returns the default document:
  its users dictionary has the one entry "admin", with role "admin", no logs and the
  hash of "admin123" as password. In the session that starts from it, logging in as
  "admin" with "admin123" succeeds.
\<close>

theorem bootstrap_admin:
  "load_data H Missing =
     Inr \<lparr>users = [(''admin'', \<lparr>password = hash_password H ''admin123'',
                               role = ''admin'', logs = []\<rparr>)]\<rparr>
   \<and> session_init H Missing =
     Inr \<lparr>data = \<lparr>users = [(''admin'', \<lparr>password = hash_password H ''admin123'',
                                       role = ''admin'', logs = []\<rparr>)]\<rparr>,
          logged_in_user = None, page = None, data_file = Missing\<rparr>
   \<and> login_page H Login ''admin'' ''admin123''
        \<lparr>data = \<lparr>users = [(''admin'', \<lparr>password = hash_password H ''admin123'',
                                       role = ''admin'', logs = []\<rparr>)]\<rparr>,
          logged_in_user = None, page = None, data_file = Missing\<rparr>
     = (St_success ''Welcome back, admin!'',
        \<lparr>data = \<lparr>users = [(''admin'', \<lparr>password = hash_password H ''admin123'',
                                       role = ''admin'', logs = []\<rparr>)]\<rparr>,
          logged_in_user = Some ''admin'', page = Some ''dashboard'', data_file = Missing\<rparr>)"
  by (simp add: load_data_def session_init_def hash_password_def)

section \<open>Properties of the administrator's dashboard\<close>
















section \<open>Properties of the store\<close>



end
